theory Spec2Isabelle
  imports Complex_Main
begin

section \<open>The WQP program of dbseeder: data model\<close>

text \<open>
  The development follows \<^verbatim>\<open>src/dbseeder/programs.py\<close>, class \<^verbatim>\<open>WqpProgram\<close>.
  Method names are the source's without the leading underscore.

  A Python value as it occurs in a row: \<^verbatim>\<open>None\<close>, a string, an integer or a float.
  Floats are read as reals; the program only ever tests them against zero.
\<close>

datatype pyvalue = VNone | VStr string | VInt int | VFloat real

text \<open>A row is a Python dictionary from field names to values.\<close>

type_synonym row = "string \<rightharpoonup> pyvalue"

text \<open>
  Exceptions are values. \<open>PyException\<close> is \<^verbatim>\<open>raise Exception(...)\<close> with its
  arguments, \<open>DriverError\<close> an exception raised by the database driver.
\<close>

datatype error =
    KeyError string
  | TypeError
  | IndexError
  | UnboundLocalError string
  | PyException "string list"
  | DriverError string

text \<open>Truth value testing, and \<^verbatim>\<open>x and y\<close>, which yields \<^verbatim>\<open>x\<close> when it is falsy.\<close>

fun truthy :: "pyvalue \<Rightarrow> bool" where
  "truthy VNone = False"
| "truthy (VStr s) = (s \<noteq> [])"
| "truthy (VInt i) = (i \<noteq> 0)"
| "truthy (VFloat x) = (x \<noteq> 0)"

definition py_and :: "pyvalue \<Rightarrow> pyvalue \<Rightarrow> pyvalue" where
  "py_and x y = (if truthy x then y else x)"

text \<open>\<^verbatim>\<open>a or b\<close> on strings: the first operand unless it is empty.\<close>

definition py_or :: "string \<Rightarrow> string \<Rightarrow> string" where
  "py_or a b = (if a \<noteq> [] then a else b)"

text \<open>\<^verbatim>\<open>dict(pairs)\<close>: a later pair overrides an earlier one with the same key.\<close>

definition py_dict :: "(string \<times> pyvalue) list \<Rightarrow> row" where
  "py_dict kvs = map_of (rev kvs)"

text \<open>\<^verbatim>\<open>sep.join(xs)\<close> with the separator \<^verbatim>\<open>','\<close>.\<close>

fun join_comma :: "string list \<Rightarrow> string" where
  "join_comma [] = []"
| "join_comma [x] = x"
| "join_comma (x # y # ys) = x @ '','' @ join_comma (y # ys)"

text \<open>
  \<^verbatim>\<open>template.format(arg)\<close> for a template whose only replacement field is one
  \<^verbatim>\<open>{}\<close>, as in both insert statements of the program: the field is replaced by the
  argument; a template without a field is returned as it is.
\<close>

fun py_format :: "string \<Rightarrow> string \<Rightarrow> string" where
  "py_format (a # b # t) arg =
     (if a = CHR ''{'' \<and> b = CHR ''}'' then arg @ t else a # py_format (b # t) arg)"
| "py_format t arg = t"

subsection \<open>Class constants\<close>

definition datasource :: string where
  "datasource = ''WQP''"

definition TEMPDB :: string where
  "TEMPDB = ''temp.sqlite3''"

definition batch_size :: nat where
  "batch_size = 5000"

text \<open>\<^verbatim>\<open>sql['station_insert']\<close>.\<close>

definition station_insert :: string where
  "station_insert =
     ''insert into Stations (OrgId, OrgName, StationId, StationName, StationType, StationComment,''
   @ '' HUC8, Lon_X, Lat_Y, HorAcc, HorAccUnit, HorCollMeth, HorRef, Elev, ElevUnit, ElevAcc,''
   @ '' ElevAccUnit, ElevMeth, ElevRef, StateCode, CountyCode, Aquifer, FmType, AquiferType,''
   @ '' ConstDate, Depth, DepthUnit, HoleDepth, HoleDUnit, demELEVm, DataSource, WIN, Shape)''
   @ '' values ({})''"

text \<open>
  \<^verbatim>\<open>sql['wqxids'].format(field, table)\<close>, the template being
  \<^verbatim>\<open>select {0} from {1} where {0} LIKE '%_WQX%'\<close>.
\<close>

definition wqxids_sql :: "string \<Rightarrow> string \<Rightarrow> string" where
  "wqxids_sql field table =
     ''select '' @ field @ '' from '' @ table @ '' where '' @ field @ '' LIKE '' @
     [CHR 0x27] @ ''%_WQX%'' @ [CHR 0x27]"

definition monitoring_location_id :: string where
  "monitoring_location_id = ''MonitoringLocationIdentifier''"

text \<open>\<^verbatim>\<open>station_config\<close>, the ordered table from source columns to destination fields.\<close>

definition station_config :: "(string \<times> string) list" where
  "station_config =
    [(''OrganizationIdentifier'', ''OrgId''),
     (''OrganizationFormalName'', ''OrgName''),
     (''MonitoringLocationIdentifier'', ''StationId''),
     (''MonitoringLocationName'', ''StationName''),
     (''MonitoringLocationTypeName'', ''StationType''),
     (''MonitoringLocationDescriptionText'', ''StationComment''),
     (''HUCEightDigitCode'', ''HUC8''),
     (''LongitudeMeasure'', ''Lon_X''),
     (''LatitudeMeasure'', ''Lat_Y''),
     (''HorizontalAccuracyMeasure/MeasureValue'', ''HorAcc''),
     (''HorizontalAccuracyMeasure/MeasureUnitCode'', ''HorAccUnit''),
     (''HorizontalCollectionMethodName'', ''HorCollMeth''),
     (''HorizontalCoordinateReferenceSystemDatumName'', ''HorRef''),
     (''VerticalMeasure/MeasureValue'', ''Elev''),
     (''VerticalMeasure/MeasureUnitCode'', ''ElevUnit''),
     (''VerticalAccuracyMeasure/MeasureValue'', ''ElevAcc''),
     (''VerticalAccuracyMeasure/MeasureUnitCode'', ''ElevAccUnit''),
     (''VerticalCollectionMethodName'', ''ElevMeth''),
     (''VerticalCoordinateReferenceSystemDatumName'', ''ElevRef''),
     (''StateCode'', ''StateCode''),
     (''CountyCode'', ''CountyCode''),
     (''AquiferName'', ''Aquifer''),
     (''FormationTypeText'', ''FmType''),
     (''AquiferTypeName'', ''AquiferType''),
     (''ConstructionDateText'', ''ConstDate''),
     (''WellDepthMeasure/MeasureValue'', ''Depth''),
     (''WellDepthMeasure/MeasureUnitCode'', ''DepthUnit''),
     (''WellHoleDepthMeasure/MeasureValue'', ''HoleDepth''),
     (''WellHoleDepthMeasure/MeasureUnitCode'', ''HoleDUnit''),
     (''demELEVm'', ''!demELEVm''),
     (''DataSource'', ''!DataSource''),
     (''WIN'', ''!WIN''),
     (''Shape'', ''!Shape'')]"

subsection \<open>The marker pattern\<close>

text \<open>
  \<^verbatim>\<open>wqx_re = re.compile('(_WQX)-')\<close>. \<open>wqx_search\<close> is \<^verbatim>\<open>wqx_re.search(s)\<close>
  read as a truth value: the marker occurs somewhere in \<open>s\<close>. \<open>wqx_sub\<close> is
  \<^verbatim>\<open>re.sub(wqx_re, '-', s)\<close>: every occurrence, from the left and without overlap,
  is replaced by a dash.
\<close>

fun wqx_search :: "string \<Rightarrow> bool" where
  "wqx_search [] = False"
| "wqx_search (c # cs) = (take 5 (c # cs) = ''_WQX-'' \<or> wqx_search cs)"

fun wqx_sub :: "string \<Rightarrow> string" where
  "wqx_sub [] = []"
| "wqx_sub (c # cs) =
     (if take 5 (c # cs) = ''_WQX-'' then CHR ''-'' # wqx_sub (drop 4 cs)
      else c # wqx_sub cs)"

section \<open>Row mapper\<close>

text \<open>
  The argument \<^verbatim>\<open>rows\<close> of \<^verbatim>\<open>_etl_column_names\<close> is a dictionary (a station that
  is already mapped), one line of a csv reader (a list of cells), or the result of a
  query (a list of tuples). The result is \<^verbatim>\<open>None\<close>, one dictionary or a list of
  dictionaries.
\<close>

datatype etl_rows = Dict row | Cells "string list" | Tuples "string list list"

datatype etl_result = NoResult | OneRow row | ManyRows "row list"

definition return_value_if_not_in_config :: "(string \<times> string) list \<Rightarrow> string \<Rightarrow> string" where
  "return_value_if_not_in_config config key =
     (case map_of config key of Some v \<Rightarrow> v | None \<Rightarrow> key)"

definition zip_row :: "string list \<Rightarrow> string list \<Rightarrow> row" where
  "zip_row header cells = py_dict (zip header (map VStr cells))"

text \<open>
  \<^verbatim>\<open>if not header\<close> holds for \<^verbatim>\<open>None\<close> and for an empty header; the header is then
  popped off the rows. Popped off a list of cells it is a string, and mapping over a
  string visits its characters. \<^verbatim>\<open>rows[0]\<close> raises on what is left when nothing is.
\<close>

definition etl_column_names ::
  "etl_rows \<Rightarrow> (string \<times> string) list \<Rightarrow> string list option \<Rightarrow> error + etl_result" where
  "etl_column_names rows config header =
     (case rows of
        Dict d \<Rightarrow> Inr (OneRow d)
      | Cells cs \<Rightarrow>
          (if length cs = 0 then Inr NoResult
           else if header = None \<or> header = Some [] then
             (let header' = map (\<lambda>c. [c]) (hd cs); cs' = tl cs;
                  header'' = map (return_value_if_not_in_config config) header'
              in if cs' = [] then Inl IndexError
                 else Inr (OneRow (zip_row header'' cs')))
           else
             (let header'' = map (return_value_if_not_in_config config) (the header)
              in Inr (OneRow (zip_row header'' cs))))
      | Tuples ts \<Rightarrow>
          (if length ts = 0 then Inr NoResult
           else if header = None \<or> header = Some [] then
             (let header' = hd ts; ts' = tl ts;
                  header'' = map (return_value_if_not_in_config config) header'
              in if ts' = [] then Inl IndexError
                 else Inr (ManyRows (map (zip_row header'') ts')))
           else
             (let header'' = map (return_value_if_not_in_config config) (the header)
              in Inr (ManyRows (map (zip_row header'') ts)))))"

section \<open>Data source tag and geometry\<close>

text \<open>
  The template \<^verbatim>\<open>geometry::STGeomFromText('POINT ({} {})', 26912)\<close> with its two
  fields filled.
\<close>

definition shape_template :: "string \<Rightarrow> string \<Rightarrow> string" where
  "shape_template a b =
     ''geometry::STGeomFromText('POINT ('' @ a @ '' '' @ b @ '')', 26912)''"

text \<open>
  \<^verbatim>\<open>_update_row\<close> mutates the dictionary it is given and returns that same
  dictionary. The model returns the exception raised, if any, together with the
  dictionary as the call leaves it; with no exception the second component is the value
  returned. \<open>to_utm\<close> is \<^verbatim>\<open>Reproject.to_utm\<close> and \<open>py_str\<close> the rendering of a
  coordinate by \<^verbatim>\<open>format\<close>; both are collaborators outside the program.
\<close>

definition update_row ::
  "(pyvalue \<Rightarrow> pyvalue \<Rightarrow> pyvalue \<times> pyvalue) \<Rightarrow> (pyvalue \<Rightarrow> string) \<Rightarrow> row
     \<Rightarrow> error option \<times> row" where
  "update_row to_utm py_str row0 =
     (let row = row0(''DataSource'' \<mapsto> VStr datasource) in
      case row ''Lon_X'' of
        None \<Rightarrow> (Some (KeyError ''Lon_X''), row)
      | Some x \<Rightarrow>
          (case row ''Lat_Y'' of
             None \<Rightarrow> (Some (KeyError ''Lat_Y''), row)
           | Some y \<Rightarrow>
               if \<not> truthy (py_and x y) then (None, row)
               else if row ''Shape'' = None then (None, row)
               else
                 (let shape = to_utm x y
                  in (None, row(''Shape'' \<mapsto>
                        VStr (shape_template (py_str (fst shape)) (py_str (snd shape))))))))"

section \<open>Program object and batched sink\<close>

text \<open>
  The object \<^verbatim>\<open>self\<close>. An attribute that may be absent is an option; \<open>cursor\<close>
  tells whether the attribute \<^verbatim>\<open>cursor\<close> is there. \<open>trace\<close> is not an attribute: it
  records, in order, what the program asked of the database driver.
\<close>

datatype event = Connect string | Execute string | ExecuteFailed string | Commit

record program =
  db :: "string \<rightharpoonup> string"
  results_folder :: "string option"
  stations_folder :: "string option"
  cursor :: bool
  trace :: "event list"

text \<open>
  The driver, \<^verbatim>\<open>pyodbc\<close>: whether connecting with a connection string raises, and
  whether executing a statement raises, given everything the driver was asked before.
\<close>

record driver =
  connect :: "string \<Rightarrow> error option"
  execute :: "event list \<Rightarrow> string \<Rightarrow> error option"

definition commit :: "program \<Rightarrow> program" where
  "commit p = p\<lparr>trace := trace p @ [Commit]\<rparr>"

text \<open>
  The lines that open a connection when \<^verbatim>\<open>self\<close> has no cursor:
  \<^verbatim>\<open>if not hasattr(self, 'cursor') or not self.cursor: ...\<close>.
\<close>

definition ensure_cursor :: "driver \<Rightarrow> program \<Rightarrow> error option \<times> program" where
  "ensure_cursor d p =
     (if \<not> cursor p then
        (case db p ''connection_string'' of
           None \<Rightarrow> (Some (KeyError ''connection_string''), p)
         | Some cs \<Rightarrow>
             (case connect d cs of
                Some e \<Rightarrow> (Some e, p)
              | None \<Rightarrow> (None, p\<lparr>cursor := True, trace := trace p @ [Connect cs]\<rparr>)))
      else (None, p))"

text \<open>
  The loop of \<^verbatim>\<open>_insert_rows\<close>, with the counter \<^verbatim>\<open>i\<close>. On an exception of
  \<^verbatim>\<open>execute\<close> the attribute \<^verbatim>\<open>cursor\<close> is deleted and the exception raised again.
  Both commits are in the body of the loop.
\<close>

fun insert_loop ::
  "driver \<Rightarrow> string \<Rightarrow> nat \<Rightarrow> string list list \<Rightarrow> program \<Rightarrow> error option \<times> program" where
  "insert_loop d insert_statement i [] p = (None, p)"
| "insert_loop d insert_statement i (row # rows) p =
     (let statement = py_format insert_statement (join_comma row) in
      case execute d (trace p) statement of
        Some e \<Rightarrow> (Some e, p\<lparr>cursor := False, trace := trace p @ [ExecuteFailed statement]\<rparr>)
      | None \<Rightarrow>
          (let p1 = p\<lparr>trace := trace p @ [Execute statement]\<rparr>;
               i1 = i + 1;
               p2 = (if i1 mod batch_size = 0 then commit p1 else p1);
               p3 = commit p2
           in insert_loop d insert_statement i1 rows p3))"

definition insert_rows ::
  "driver \<Rightarrow> program \<Rightarrow> string list list \<Rightarrow> string \<Rightarrow> error option \<times> program" where
  "insert_rows d p rows insert_statement =
     (case ensure_cursor d p of
        (Some e, p') \<Rightarrow> (Some e, p')
      | (None, p') \<Rightarrow> insert_loop d insert_statement 1 rows p')"

text \<open>Reading a trace: the commits in it, and the statements it executed.\<close>

definition commits :: "event list \<Rightarrow> nat" where
  "commits t = length (filter (\<lambda>e. e = Commit) t)"

fun executed :: "event list \<Rightarrow> string list" where
  "executed [] = []"
| "executed (Execute s # t) = s # executed t"
| "executed (e # t) = executed t"

text \<open>The statements whose execution was attempted, whether it succeeded or not.\<close>

fun attempted :: "event list \<Rightarrow> string list" where
  "attempted [] = []"
| "attempted (Execute s # t) = s # attempted t"
| "attempted (ExecuteFailed s # t) = s # attempted t"
| "attempted (e # t) = attempted t"

text \<open>
  What a call that executes every row adds to the trace: for the row that brings the
  counter to \<open>i\<close>, the statement and one commit, two when \<open>i\<close> is a multiple of the
  batch size.
\<close>

fun row_events :: "string \<Rightarrow> nat \<Rightarrow> string list list \<Rightarrow> event list" where
  "row_events insert_statement i [] = []"
| "row_events insert_statement i (row # rows) =
     Execute (py_format insert_statement (join_comma row))
       # (if Suc i mod batch_size = 0 then [Commit, Commit] else [Commit])
       @ row_events insert_statement (Suc i) rows"

section \<open>Construction and files\<close>

text \<open>\<^verbatim>\<open>os.path.join\<close> of two components, on a POSIX system.\<close>

definition join :: "string \<Rightarrow> string \<Rightarrow> string" where
  "join a b =
     (if b \<noteq> [] \<and> hd b = CHR ''/'' then b
      else if a = [] \<or> last a = CHR ''/'' then a @ b
      else a @ ''/'' @ b)"

text \<open>
  \<^verbatim>\<open>__init__\<close>, on a file system of which \<open>isdir\<close> tells the directories. Without a
  file location the program is built for an update and no folder is looked at.
\<close>

definition init ::
  "(string \<Rightarrow> bool) \<Rightarrow> (string \<rightharpoonup> string) \<Rightarrow> string option \<Rightarrow> error + program" where
  "init isdir database file_location =
     (let self = \<lparr>db = database, results_folder = None, stations_folder = None,
                  cursor = False, trace = []\<rparr> in
      case file_location of
        None \<Rightarrow> Inr self
      | Some loc \<Rightarrow>
          (let parent_folder = join loc datasource in
           if \<not> isdir parent_folder then
             Inl (PyException
               [''Pass in a location to the parent folder that contains WQP. '' @ parent_folder])
           else
             (let results = join parent_folder ''Results'';
                  stations = join parent_folder ''Stations''
              in if \<not> isdir (py_or results stations) then
                   Inl (PyException
                     [''WQP folder is missing Results or Stations child folders containing csv files.''])
                 else Inr (self\<lparr>results_folder := Some results,
                                stations_folder := Some stations\<rparr>))))"

text \<open>\<^verbatim>\<open>_get_files\<close>; \<open>glob\<close> lists the paths that match a pattern.\<close>

definition get_files :: "(string \<Rightarrow> string list) \<Rightarrow> string option \<Rightarrow> error + string list" where
  "get_files glob location =
     (case location of
        None \<Rightarrow> Inl (PyException [''Pass in a location containing csv files to import.''])
      | Some loc \<Rightarrow>
          if loc = [] then
            Inl (PyException [''Pass in a location containing csv files to import.''])
          else
            (let files = glob (join loc ''*.csv'')
             in if length files < 1 then Inl (PyException [loc, ''No csv files found.''])
                else Inr files))"

section \<open>Identifier reconciler\<close>

text \<open>
  \<^verbatim>\<open>_get_file_name_without_extension\<close>: \<^verbatim>\<open>splitext(basename(file_path))[0]\<close> on a
  POSIX system. The extension starts at the last dot of the name, unless only dots
  precede it.
\<close>

definition basename :: "string \<Rightarrow> string" where
  "basename p = rev (takeWhile (\<lambda>c. c \<noteq> CHR ''/'') (rev p))"

definition splitext_root :: "string \<Rightarrow> string" where
  "splitext_root p =
     (if CHR ''.'' \<notin> set p then p
      else
        (let ext = takeWhile (\<lambda>c. c \<noteq> CHR ''.'') (rev p);
             root = take (length p - length ext - 1) p
         in if \<exists>c \<in> set root. c \<noteq> CHR ''.'' then root else p))"

definition get_file_name_without_extension :: "string \<Rightarrow> string" where
  "get_file_name_without_extension file_path = splitext_root (basename file_path)"

text \<open>
  The argument of \<^verbatim>\<open>_get_wqx_duplicate_ids\<close>: the path of a station file, or the
  mapped stations of an update. On a list the file name cannot be taken, the
  \<^verbatim>\<open>AttributeError\<close> is caught, and the list is used.
\<close>

datatype station_source = CsvFile string | StationRows "row list"

text \<open>\<^verbatim>\<open>station['StationId']\<close>, which the pattern then requires to be a string.\<close>

definition station_id_of :: "row \<Rightarrow> error + string" where
  "station_id_of station =
     (case station ''StationId'' of
        None \<Rightarrow> Inl (KeyError ''StationId'')
      | Some (VStr s) \<Rightarrow> Inr s
      | Some _ \<Rightarrow> Inl TypeError)"

text \<open>
  \<^verbatim>\<open>filter(lambda x: self.wqx_re.search(x['StationId']), stations)\<close>, and the
  comprehension that strips the marker from the ids of the rows kept. The first
  exception ends either.
\<close>

fun filter_wqx :: "row list \<Rightarrow> error + row list" where
  "filter_wqx [] = Inr []"
| "filter_wqx (x # xs) =
     (case station_id_of x of
        Inl e \<Rightarrow> Inl e
      | Inr s \<Rightarrow>
          (case filter_wqx xs of
             Inl e \<Rightarrow> Inl e
           | Inr kept \<Rightarrow> Inr (if wqx_search s then x # kept else kept)))"

fun stripped_ids :: "row list \<Rightarrow> error + string list" where
  "stripped_ids [] = Inr []"
| "stripped_ids (x # xs) =
     (case station_id_of x of
        Inl e \<Rightarrow> Inl e
      | Inr s \<Rightarrow>
          (case stripped_ids xs of
             Inl e \<Rightarrow> Inl e
           | Inr ids \<Rightarrow> Inr (wqx_sub s # ids)))"

text \<open>\<^verbatim>\<open>[re.sub(self.wqx_re, '-', row[0]) for row in rows]\<close> on the tuples of a query.\<close>

fun stripped_first_cells :: "string list list \<Rightarrow> error + string list" where
  "stripped_first_cells [] = Inr []"
| "stripped_first_cells ([] # rows) = Inl IndexError"
| "stripped_first_cells ((c # cs) # rows) =
     (case stripped_first_cells rows of
        Inl e \<Rightarrow> Inl e
      | Inr ids \<Rightarrow> Inr (wqx_sub c # ids))"

text \<open>
  \<^verbatim>\<open>_get_wqx_duplicate_ids\<close>. \<open>query_csv\<close> is the filtered bulk reader. A path
  whose file name is empty reaches the last line with \<^verbatim>\<open>stations\<close> unassigned.
\<close>

definition get_wqx_duplicate_ids ::
  "(string \<Rightarrow> string list \<Rightarrow> string \<Rightarrow> string list list) \<Rightarrow> station_source
     \<Rightarrow> error + string set" where
  "get_wqx_duplicate_ids query_csv source =
     (case source of
        CsvFile file_path \<Rightarrow>
          (let file_name = get_file_name_without_extension file_path in
           if file_name \<noteq> [] then
             (let rows = query_csv (wqxids_sql monitoring_location_id file_name)
                           [file_path] TEMPDB;
                  rows' = (if length rows > 0 then tl rows else rows)
              in case stripped_first_cells rows' of
                   Inl e \<Rightarrow> Inl e
                 | Inr ids \<Rightarrow> Inr (set ids))
           else Inl (UnboundLocalError ''stations''))
      | StationRows stations \<Rightarrow>
          (case filter_wqx stations of
             Inl e \<Rightarrow> Inl e
           | Inr kept \<Rightarrow>
               (case stripped_ids kept of
                  Inl e \<Rightarrow> Inl e
                | Inr ids \<Rightarrow> Inr (set ids))))"

text \<open>
  \<^verbatim>\<open>_get_unique_station_ids\<close> asks the destination which of the given ids its
  Stations table does not hold (\<^verbatim>\<open>sql['new_stations']\<close>: the values for which no row
  with that \<^verbatim>\<open>StationId\<close> exists); the answer is a list of one-column rows. \<open>stored\<close>
  is the set of ids in the table.
\<close>

definition get_unique_station_ids :: "string set \<Rightarrow> string list \<Rightarrow> string list list" where
  "get_unique_station_ids stored station_ids =
     map (\<lambda>station_id. [station_id]) (filter (\<lambda>station_id. station_id \<notin> stored) station_ids)"

text \<open>\<^verbatim>\<open>[stripped[0] for stripped in ...]\<close>.\<close>

fun first_cells :: "string list list \<Rightarrow> error + string list" where
  "first_cells [] = Inr []"
| "first_cells ([] # rows) = Inl IndexError"
| "first_cells ((c # cs) # rows) =
     (case first_cells rows of Inl e \<Rightarrow> Inl e | Inr ids \<Rightarrow> Inr (c # ids))"

text \<open>
  The last loop of \<^verbatim>\<open>_remove_existing_wqx_station_ids\<close> iterates over the list it
  removes from. The iterator of a Python list is an index into the list as it is at
  that moment; \<^verbatim>\<open>remove\<close> deletes the first occurrence.
\<close>

function remove_loop :: "string set \<Rightarrow> nat \<Rightarrow> string list \<Rightarrow> string list" where
  "remove_loop uniques i station_ids =
     (if i < length station_ids then
        (let id = station_ids ! i in
         if wqx_sub id \<notin> uniques then remove_loop uniques (i + 1) (remove1 id station_ids)
         else remove_loop uniques (i + 1) station_ids)
      else station_ids)"
  by pat_completeness auto
termination
  by (relation "measure (\<lambda>(uniques, i, station_ids). length station_ids - i)")
     (auto simp: length_remove1)

text \<open>
  \<^verbatim>\<open>_remove_existing_wqx_station_ids\<close>; \<open>unique_station_ids\<close> is the method
  \<^verbatim>\<open>_get_unique_station_ids\<close> of the object. The set \<^verbatim>\<open>wqxs\<close> is listed without
  repetition.
\<close>

definition remove_existing_wqx_station_ids ::
  "(string list \<Rightarrow> string list list) \<Rightarrow> string list \<Rightarrow> error + string list" where
  "remove_existing_wqx_station_ids unique_station_ids station_ids =
     (let wqxs = remdups (filter wqx_search station_ids) in
      if length wqxs < 1 then Inr station_ids
      else
        (let stripped_wqx = map wqx_sub wqxs in
         case first_cells (unique_station_ids stripped_wqx) of
           Inl e \<Rightarrow> Inl e
         | Inr us \<Rightarrow> Inr (remove_loop (set us) 0 station_ids)))"

section \<open>Full load of stations\<close>

text \<open>
  The collaborators of \<^verbatim>\<open>_seed_stations\<close>: \<^verbatim>\<open>Caster.cast\<close> with the station
  schema, the reprojection and the rendering of its coordinates,
  \<^verbatim>\<open>Normalizer.normalize_station\<close>, \<^verbatim>\<open>Normalizer.reorder_filter\<close> with the station
  schema (an ordered dictionary) and \<^verbatim>\<open>Caster.cast_for_sql\<close>.
\<close>

record services =
  cast_station :: "row \<Rightarrow> row"
  to_utm :: "pyvalue \<Rightarrow> pyvalue \<Rightarrow> pyvalue \<times> pyvalue"
  py_str :: "pyvalue \<Rightarrow> string"
  normalize_station :: "row \<Rightarrow> row"
  reorder_filter_station :: "row \<Rightarrow> (string \<times> pyvalue) list"
  cast_for_sql :: "(string \<times> pyvalue) list \<Rightarrow> (string \<times> string) list"

text \<open>The steps of the loop body after the duplicate check, up to \<^verbatim>\<open>row.values()\<close>.\<close>

definition render_station :: "services \<Rightarrow> row \<Rightarrow> error + string list" where
  "render_station svc row =
     (let row1 = cast_station svc row in
      case update_row (to_utm svc) (py_str svc) row1 of
        (Some e, _) \<Rightarrow> Inl e
      | (None, row2) \<Rightarrow>
          (let row3 = normalize_station svc row2;
               row4 = reorder_filter_station svc row3;
               row5 = cast_for_sql svc row4
           in Inr (map snd row5)))"

text \<open>
  The duplicate check
  \<^verbatim>\<open>not self.wqx_re.search(station_id) and station_id in wqx\<close>. The membership is only
  evaluated for an id without the marker, and raises when \<^verbatim>\<open>wqx\<close> is \<^verbatim>\<open>None\<close>.
\<close>

definition is_duplicate :: "string set option \<Rightarrow> string \<Rightarrow> error + bool" where
  "is_duplicate wqx station_id =
     (if \<not> wqx_search station_id then
        (case wqx of None \<Rightarrow> Inl TypeError | Some w \<Rightarrow> Inr (station_id \<in> w))
      else Inr False)"

text \<open>The loop of \<^verbatim>\<open>_seed_stations\<close>; \<open>stations\<close> is the list it appends to.\<close>

fun seed_stations_loop ::
  "services \<Rightarrow> string list option \<Rightarrow> string set option \<Rightarrow> etl_rows list \<Rightarrow> string list list
     \<Rightarrow> error + string list list" where
  "seed_stations_loop svc header wqx [] stations = Inr stations"
| "seed_stations_loop svc header wqx (raw # rows) stations =
     (case etl_column_names raw station_config header of
        Inl e \<Rightarrow> Inl e
      | Inr (OneRow row) \<Rightarrow>
          (case station_id_of row of
             Inl e \<Rightarrow> Inl e
           | Inr station_id \<Rightarrow>
               (case is_duplicate wqx station_id of
                  Inl e \<Rightarrow> Inl e
                | Inr True \<Rightarrow> seed_stations_loop svc header wqx rows stations
                | Inr False \<Rightarrow>
                    (case render_station svc row of
                       Inl e \<Rightarrow> Inl e
                     | Inr values \<Rightarrow>
                         seed_stations_loop svc header wqx rows (stations @ [values]))))
      | Inr _ \<Rightarrow> Inl TypeError)"

text \<open>\<^verbatim>\<open>_seed_stations\<close>: the loop, then the stations are handed to the sink.\<close>

definition seed_stations ::
  "services \<Rightarrow> driver \<Rightarrow> program \<Rightarrow> etl_rows list \<Rightarrow> string list option \<Rightarrow> string set option
     \<Rightarrow> error option \<times> program" where
  "seed_stations svc d p rows header wqx =
     (case seed_stations_loop svc header wqx rows [] of
        Inl e \<Rightarrow> (Some e, p)
      | Inr stations \<Rightarrow> insert_rows d p stations station_insert)"

section \<open>Reading the results\<close>

text \<open>
  The longest run of executed statements with no commit between them, \<open>cur\<close> being
  the statements executed since the last commit.
\<close>

fun longest_uncommitted :: "nat \<Rightarrow> event list \<Rightarrow> nat" where
  "longest_uncommitted cur [] = cur"
| "longest_uncommitted cur (Commit # t) = max cur (longest_uncommitted 0 t)"
| "longest_uncommitted cur (Execute s # t) = longest_uncommitted (Suc cur) t"
| "longest_uncommitted cur (e # t) = longest_uncommitted cur t"

text \<open>
  For the station loop: the dictionary the row mapper gives for a source row; whether a
  mapped row has a bare id that is in the duplicate set; and the values of a row after
  cast, \<^verbatim>\<open>_update_row\<close>, normalisation, reordering and rendering.
\<close>

definition mapped_station :: "string list option \<Rightarrow> etl_rows \<Rightarrow> row" where
  "mapped_station header raw =
     (case etl_column_names raw station_config header of
        Inr (OneRow row) \<Rightarrow> row
      | _ \<Rightarrow> Map.empty)"

definition bare_duplicate :: "string set \<Rightarrow> row \<Rightarrow> bool" where
  "bare_duplicate wqx row =
     (case row ''StationId'' of
        Some (VStr station_id) \<Rightarrow> \<not> wqx_search station_id \<and> station_id \<in> wqx
      | _ \<Rightarrow> False)"

definition rendered :: "services \<Rightarrow> row \<Rightarrow> string list" where
  "rendered svc row =
     map snd (cast_for_sql svc (reorder_filter_station svc (normalize_station svc
       (snd (update_row (to_utm svc) (py_str svc) (cast_station svc row))))))"

text \<open>
  A source row the station loop can process: the mapper gives a dictionary whose
  \<^verbatim>\<open>StationId\<close> is a string and, unless the row is a bare duplicate, the caster gives
  it both coordinate fields.
\<close>

definition station_ready ::
  "services \<Rightarrow> string list option \<Rightarrow> string set \<Rightarrow> etl_rows \<Rightarrow> bool" where
  "station_ready svc header wqx raw =
     (case etl_column_names raw station_config header of
        Inr (OneRow row) \<Rightarrow>
          (case row ''StationId'' of
             Some (VStr station_id) \<Rightarrow>
               bare_duplicate wqx row \<or>
               (cast_station svc row ''Lon_X'' \<noteq> None \<and> cast_station svc row ''Lat_Y'' \<noteq> None)
           | _ \<Rightarrow> False)
      | _ \<Rightarrow> False)"

text \<open>The values \<^verbatim>\<open>None\<close>, \<^verbatim>\<open>''\<close>, \<^verbatim>\<open>0\<close> and \<^verbatim>\<open>0.0\<close>.\<close>

definition unset_values :: "pyvalue set" where
  "unset_values = {VNone, VStr [], VInt 0, VFloat 0}"

text \<open>
  Stand-ins for the collaborators, to run the station loop on concrete rows: a caster and
  a normaliser that change nothing, a reprojection that returns its arguments, a schema
  of the single field \<^verbatim>\<open>StationId\<close>, and a renderer that writes strings as they
  are.
\<close>

definition plain_services :: services where
  "plain_services =
     \<lparr>cast_station = (\<lambda>row. row), to_utm = (\<lambda>x y. (x, y)),
      py_str = (\<lambda>v. case v of VStr s \<Rightarrow> s | _ \<Rightarrow> ''0''),
      normalize_station = (\<lambda>row. row),
      reorder_filter_station =
        (\<lambda>row. case row ''StationId'' of Some v \<Rightarrow> [(''StationId'', v)] | None \<Rightarrow> []),
      cast_for_sql = map (\<lambda>(k, v). (k, case v of VStr s \<Rightarrow> s | _ \<Rightarrow> ''Null''))\<rparr>"

section \<open>Properties\<close>

subsection \<open>Row mapper\<close>

text \<open>
  Claim C8. The row mapper is idempotent on mapped input: given a dictionary, whatever
  the mapping table and the header, it returns that dictionary, with no key renamed,
  added or removed; mapping the result again gives the same.
\<close>

theorem etl_column_names_dict_unchanged:
  "etl_column_names (Dict d) config header = Inr (OneRow d)"
  by (simp add: etl_column_names_def)

subsection \<open>Data source tag and geometry\<close>

lemma truthy_unset: "\<not> truthy v \<longleftrightarrow> v \<in> unset_values"
  by (cases v) (auto simp: unset_values_def)

text \<open>
  Claim C9. For every row dictionary, as \<^verbatim>\<open>_update_row\<close> leaves it (whether it
  returns or raises): every field other than \<^verbatim>\<open>DataSource\<close> and \<^verbatim>\<open>Shape\<close> is
  unchanged; \<^verbatim>\<open>DataSource\<close> is the constant \<^verbatim>\<open>'WQP'\<close>; no key other than
  \<^verbatim>\<open>DataSource\<close> is added and none is removed; and \<^verbatim>\<open>Shape\<close> is changed only
  when the row already has a \<^verbatim>\<open>Shape\<close> key and both coordinates are there and truthy.
\<close>

theorem update_row_frame:
  "(\<forall>k. k \<noteq> ''DataSource'' \<and> k \<noteq> ''Shape'' \<longrightarrow> snd (update_row f s row) k = row k)
   \<and> snd (update_row f s row) ''DataSource'' = Some (VStr datasource)
   \<and> dom (snd (update_row f s row)) = insert ''DataSource'' (dom row)
   \<and> (snd (update_row f s row) ''Shape'' \<noteq> row ''Shape'' \<longrightarrow>
        row ''Shape'' \<noteq> None \<and>
        (\<exists>x y. row ''Lon_X'' = Some x \<and> row ''Lat_Y'' = Some y \<and> truthy x \<and> truthy y))"
  by (auto simp: update_row_def Let_def py_and_def split: option.splits if_splits)

text \<open>
  The frame property at the row of the repository's test with valid coordinates, with
  one more field: \<^verbatim>\<open>StationId\<close> is kept, \<^verbatim>\<open>Shape\<close> is changed, and the row had a
  \<^verbatim>\<open>Shape\<close> key and two truthy coordinates.
\<close>

theorem update_row_frame_witness:
  "snd (update_row (\<lambda>x y. (VStr ''243900.352024'', VStr ''4432069.05679''))
          (\<lambda>v. case v of VStr s \<Rightarrow> s | _ \<Rightarrow> ''0'')
          [''Shape'' \<mapsto> VNone, ''Lon_X'' \<mapsto> VInt (- 114), ''Lat_Y'' \<mapsto> VInt 40,
           ''StationId'' \<mapsto> VStr ''a'']) ''StationId'' = Some (VStr ''a'')
   \<and> snd (update_row (\<lambda>x y. (VStr ''243900.352024'', VStr ''4432069.05679''))
          (\<lambda>v. case v of VStr s \<Rightarrow> s | _ \<Rightarrow> ''0'')
          [''Shape'' \<mapsto> VNone, ''Lon_X'' \<mapsto> VInt (- 114), ''Lat_Y'' \<mapsto> VInt 40,
           ''StationId'' \<mapsto> VStr ''a'']) ''Shape''
       = Some (VStr ''geometry::STGeomFromText('POINT (243900.352024 4432069.05679)', 26912)'')
   \<and> truthy (VInt (- 114)) \<and> truthy (VInt 40)"
  using update_row_frame [of "(\<lambda>x y. (VStr ''243900.352024'', VStr ''4432069.05679''))"
          "(\<lambda>v. case v of VStr s \<Rightarrow> s | _ \<Rightarrow> ''0'')"
          "[''Shape'' \<mapsto> VNone, ''Lon_X'' \<mapsto> VInt (- 114), ''Lat_Y'' \<mapsto> VInt 40,
            ''StationId'' \<mapsto> VStr ''a'']"]
  by (simp add: update_row_def Let_def py_and_def datasource_def shape_template_def)

text \<open>
  Claim C7. The rows \<^verbatim>\<open>_update_row\<close> is given come from the caster and carry both
  coordinate keys; a coordinate is set when its value is truthy and missing when its
  value is \<^verbatim>\<open>None\<close>, empty or zero. For every row with both coordinates set and a
  \<^verbatim>\<open>Shape\<close> key, \<^verbatim>\<open>_update_row\<close> returns the row with \<^verbatim>\<open>Shape\<close> set to the
  template \<^verbatim>\<open>geometry::STGeomFromText('POINT (x y)', 26912)\<close> filled with the two
  components of \<^verbatim>\<open>Reproject.to_utm(Lon_X, Lat_Y)\<close>. For every row missing either
  coordinate, it returns the row, without raising, with \<^verbatim>\<open>Shape\<close> as it was: absent
  if it was absent, unchanged otherwise.
\<close>

theorem update_row_shape:
  "(row ''Lon_X'' = Some x \<and> row ''Lat_Y'' = Some y \<and> truthy x \<and> truthy y
      \<and> row ''Shape'' \<noteq> None \<longrightarrow>
      update_row f s row =
        (None, row(''DataSource'' \<mapsto> VStr datasource,
                   ''Shape'' \<mapsto> VStr (shape_template (s (fst (f x y))) (s (snd (f x y)))))))
   \<and> (row ''Lon_X'' = Some x \<and> row ''Lat_Y'' = Some y \<and> \<not> (truthy x \<and> truthy y) \<longrightarrow>
      update_row f s row = (None, row(''DataSource'' \<mapsto> VStr datasource)))"
  by (auto simp: update_row_def Let_def py_and_def split: option.splits if_splits)

text \<open>
  Both cases at the rows of the repository's tests: valid coordinates, and a longitude
  that is \<^verbatim>\<open>None\<close>.
\<close>

theorem update_row_shape_witness:
  "update_row (\<lambda>x y. (VStr ''243900.352024'', VStr ''4432069.05679''))
      (\<lambda>v. case v of VStr s \<Rightarrow> s | _ \<Rightarrow> ''0'')
      [''Shape'' \<mapsto> VNone, ''Lon_X'' \<mapsto> VInt (- 114), ''Lat_Y'' \<mapsto> VInt 40]
     = (None, [''Shape'' \<mapsto> VNone, ''Lon_X'' \<mapsto> VInt (- 114), ''Lat_Y'' \<mapsto> VInt 40,
               ''DataSource'' \<mapsto> VStr ''WQP'',
               ''Shape'' \<mapsto> VStr
                  ''geometry::STGeomFromText('POINT (243900.352024 4432069.05679)', 26912)''])
   \<and> update_row (\<lambda>x y. (VStr ''243900.352024'', VStr ''4432069.05679''))
      (\<lambda>v. case v of VStr s \<Rightarrow> s | _ \<Rightarrow> ''0'')
      [''Shape'' \<mapsto> VNone, ''Lon_X'' \<mapsto> VNone, ''Lat_Y'' \<mapsto> VInt 40]
     = (None, [''Shape'' \<mapsto> VNone, ''Lon_X'' \<mapsto> VNone, ''Lat_Y'' \<mapsto> VInt 40,
               ''DataSource'' \<mapsto> VStr ''WQP''])"
  using
    update_row_shape [of "[''Shape'' \<mapsto> VNone, ''Lon_X'' \<mapsto> VInt (- 114), ''Lat_Y'' \<mapsto> VInt 40]"
      "VInt (- 114)" "VInt 40" "(\<lambda>x y. (VStr ''243900.352024'', VStr ''4432069.05679''))"
      "(\<lambda>v. case v of VStr s \<Rightarrow> s | _ \<Rightarrow> ''0'')"]
    update_row_shape [of "[''Shape'' \<mapsto> VNone, ''Lon_X'' \<mapsto> VNone, ''Lat_Y'' \<mapsto> VInt 40]"
      "VNone" "VInt 40" "(\<lambda>x y. (VStr ''243900.352024'', VStr ''4432069.05679''))"
      "(\<lambda>v. case v of VStr s \<Rightarrow> s | _ \<Rightarrow> ''0'')"]
  by (simp add: datasource_def shape_template_def)

text \<open>
  Claim C10. Whether a coordinate counts is decided by the truth value of what is
  stored under its key, not by the key being there. For every row that has both
  coordinate keys and whose \<^verbatim>\<open>Lon_X\<close> or \<^verbatim>\<open>Lat_Y\<close> is \<^verbatim>\<open>0\<close>, the empty string
  or \<^verbatim>\<open>None\<close>, the row is returned with only \<^verbatim>\<open>DataSource\<close> set, whatever the
  reprojection would give: \<^verbatim>\<open>Shape\<close> is untouched and no reprojection enters the
  result. And for every row with such a value under a coordinate key, \<^verbatim>\<open>Shape\<close> is
  as it was after the call: a longitude or latitude of exactly \<^verbatim>\<open>0\<close> never yields a
  geometry literal.
\<close>

theorem update_row_unset_coordinate:
  "(row ''Lon_X'' = Some x \<and> row ''Lat_Y'' = Some y
      \<and> (x \<in> unset_values \<or> y \<in> unset_values) \<longrightarrow>
      update_row f s row = (None, row(''DataSource'' \<mapsto> VStr datasource)))
   \<and> ((row ''Lon_X'' = Some x \<and> x \<in> unset_values)
        \<or> (row ''Lat_Y'' = Some y \<and> y \<in> unset_values) \<longrightarrow>
      snd (update_row f s row) ''Shape'' = row ''Shape'')"
  using truthy_unset [of x] truthy_unset [of y]
  by (auto simp: update_row_def Let_def py_and_def split: option.splits if_splits)

text \<open>At a row with longitude \<^verbatim>\<open>0\<close> and a valid latitude.\<close>

theorem update_row_unset_coordinate_witness:
  "VInt 0 \<in> unset_values
   \<and> update_row (\<lambda>x y. (VStr ''243900.352024'', VStr ''4432069.05679''))
      (\<lambda>v. case v of VStr s \<Rightarrow> s | _ \<Rightarrow> ''0'')
      [''Shape'' \<mapsto> VNone, ''Lon_X'' \<mapsto> VInt 0, ''Lat_Y'' \<mapsto> VInt 40]
     = (None, [''Shape'' \<mapsto> VNone, ''Lon_X'' \<mapsto> VInt 0, ''Lat_Y'' \<mapsto> VInt 40,
               ''DataSource'' \<mapsto> VStr ''WQP''])"
  using update_row_unset_coordinate
     [of "[''Shape'' \<mapsto> VNone, ''Lon_X'' \<mapsto> VInt 0, ''Lat_Y'' \<mapsto> VInt 40]"
      "VInt 0" "VInt 40" "(\<lambda>x y. (VStr ''243900.352024'', VStr ''4432069.05679''))"
      "(\<lambda>v. case v of VStr s \<Rightarrow> s | _ \<Rightarrow> ''0'')"]
  by (simp add: datasource_def unset_values_def)

subsection \<open>Batched sink\<close>

lemma insert_loop_append:
  "insert_loop d t i (xs @ ys) p =
     (case insert_loop d t i xs p of
        (Some e, q) \<Rightarrow> (Some e, q)
      | (None, q) \<Rightarrow> insert_loop d t (i + length xs) ys q)"
  by (induction xs arbitrary: i p) (auto simp: Let_def split: option.splits prod.splits)

lemma insert_loop_success:
  "insert_loop d t i rows p = (None, q) \<Longrightarrow> q = p\<lparr>trace := trace p @ row_events t i rows\<rparr>"
proof (induction rows arbitrary: i p)
  case Nil
  then show ?case by simp
next
  case (Cons row rows)
  let ?st = "py_format t (join_comma row)"
  let ?p1 = "p\<lparr>trace := trace p @ [Execute ?st]\<rparr>"
  let ?p3 = "commit (if (i + 1) mod batch_size = 0 then commit ?p1 else ?p1)"
  from Cons.prems have ex: "execute d (trace p) ?st = None"
    by (auto simp: Let_def split: option.splits)
  with Cons.prems have "insert_loop d t (i + 1) rows ?p3 = (None, q)"
    by (simp add: Let_def)
  from Cons.IH [OF this] show ?case
    by (simp add: commit_def)
qed

lemma insert_rows_success:
  assumes "insert_rows d p rows t = (None, q)"
  obtains p' where "ensure_cursor d p = (None, p')"
    and "insert_loop d t 1 rows p' = (None, q)"
  using assms by (auto simp: insert_rows_def split: prod.splits option.splits)

lemma commits_Cons:
  "commits (e # t) = (if e = Commit then Suc (commits t) else commits t)"
  by (simp add: commits_def)

lemma commits_append: "commits (a @ b) = commits a + commits b"
  by (simp add: commits_def)

lemma commits_row_events: "length rows \<le> commits (row_events t i rows)"
proof (induction rows arbitrary: i)
  case Nil
  show ?case by simp
next
  case (Cons r rows)
  have "length rows \<le> commits (row_events t (Suc i) rows)" by (rule Cons.IH)
  then show ?case by (simp add: commits_Cons)
qed

lemma row_events_Nil: "row_events t i rows = [] \<longleftrightarrow> rows = []"
  by (cases rows) auto

lemma last_row_events: "rows \<noteq> [] \<Longrightarrow> last (row_events t i rows) = Commit"
proof (induction rows arbitrary: i)
  case Nil
  then show ?case by simp
next
  case (Cons r rows)
  show ?case
  proof (cases "rows = []")
    case True
    then show ?thesis by simp
  next
    case False
    then have "last (row_events t (Suc i) rows) = Commit" by (rule Cons.IH)
    with False show ?thesis by (simp add: row_events_Nil)
  qed
qed

lemma executed_row_events:
  "executed (row_events t i rows) = map (\<lambda>row. py_format t (join_comma row)) rows"
  by (induction rows arbitrary: i) auto

lemma attempted_row_events:
  "attempted (row_events t i rows) = map (\<lambda>row. py_format t (join_comma row)) rows"
  by (induction rows arbitrary: i) auto

lemma attempted_append: "attempted (a @ b) = attempted a @ attempted b"
  by (induction a rule: attempted.induct) auto

lemma longest_uncommitted_row_events: "longest_uncommitted 0 (row_events t i rows) \<le> 1"
proof (induction rows arbitrary: i)
  case Nil
  show ?case by simp
next
  case (Cons r rows)
  have "longest_uncommitted 0 (row_events t (Suc i) rows) \<le> 1" by (rule Cons.IH)
  then show ?case by simp
qed

lemma ensure_cursor_trace:
  "ensure_cursor d p = (None, p') \<Longrightarrow>
     commits (trace p') = commits (trace p) \<and> attempted (trace p') = attempted (trace p)"
  by (auto simp: ensure_cursor_def commits_def attempted_append
           split: if_splits option.splits)

text \<open>
  What a call of \<^verbatim>\<open>_insert_rows\<close> that returns has asked of the driver: after the
  connection, if one had to be opened, for each row in order its statement and the
  commits of the loop body.
\<close>

lemma insert_rows_trace:
  assumes "insert_rows d p rows insert_statement = (None, q)"
  shows "trace q = trace (snd (ensure_cursor d p)) @ row_events insert_statement 1 rows
           \<and> executed (row_events insert_statement 1 rows)
               = map (\<lambda>row. py_format insert_statement (join_comma row)) rows
           \<and> length rows \<le> commits (row_events insert_statement 1 rows)
           \<and> longest_uncommitted 0 (row_events insert_statement 1 rows) \<le> 1
           \<and> (rows \<noteq> [] \<longrightarrow> last (trace q) = Commit)
           \<and> (rows = [] \<longrightarrow> commits (trace q) = commits (trace p))"
proof -
  from assms obtain p' where ec: "ensure_cursor d p = (None, p')"
    and loop: "insert_loop d insert_statement 1 rows p' = (None, q)"
    by (rule insert_rows_success)
  from insert_loop_success [OF loop]
  have q: "q = p'\<lparr>trace := trace p' @ row_events insert_statement 1 rows\<rparr>" .
  have t: "trace q = trace (snd (ensure_cursor d p)) @ row_events insert_statement 1 rows"
    by (subst q) (simp add: ec)
  have l: "rows \<noteq> [] \<longrightarrow> last (trace q) = Commit"
    using last_row_events [of rows insert_statement 1] by (simp add: t row_events_Nil)
  have e: "rows = [] \<longrightarrow> commits (trace q) = commits (trace p)"
    using ensure_cursor_trace [OF ec] by (simp add: t ec)
  from t l e show ?thesis
    using executed_row_events [of insert_statement 1 rows]
      commits_row_events [of rows insert_statement 1]
      longest_uncommitted_row_events [of insert_statement 1 rows]
    by blast
qed

text \<open>
  Claim C5. The claim has at least one commit in every call of \<^verbatim>\<open>_insert_rows\<close>,
  and one after the final row. In the source the unconditional
  \<^verbatim>\<open>self.cursor.commit()\<close> stands in the body of the \<^verbatim>\<open>for\<close> loop, right after the
  commit of the batch test, and not after the loop. A call with an empty list of rows
  (every station of a file skipped, say) therefore opens the connection, returns, and
  has committed nothing.
\<close>

theorem insert_rows_empty_no_commit:
  "insert_rows \<lparr>connect = (\<lambda>cs. None), execute = (\<lambda>t s. None)\<rparr>
     \<lparr>db = [''connection_string'' \<mapsto> ''dsn''], results_folder = None,
      stations_folder = None, cursor = False, trace = []\<rparr> [] station_insert
   = (None, \<lparr>db = [''connection_string'' \<mapsto> ''dsn''], results_folder = None,
             stations_folder = None, cursor = True, trace = [Connect ''dsn'']\<rparr>)
   \<and> commits [Connect ''dsn''] = 0"
  by (simp add: insert_rows_def ensure_cursor_def commits_def)

text \<open>
  Claim C6. If the rows before row \<open>k\<close> execute (the call on them alone returns, in
  state \<open>p1\<close>) and executing the statement of row \<open>k\<close> raises \<open>e\<close>, then the call on
  all the rows raises that same \<open>e\<close>, leaves the program without its cursor
  attribute, and has asked the driver nothing after the failed statement: the
  statements attempted in the call are those of the rows up to \<open>k\<close>, each once, and
  none of a later row.
\<close>

theorem insert_rows_error_aborts:
  assumes "insert_rows d p pre insert_statement = (None, p1)"
    and "execute d (trace p1) (py_format insert_statement (join_comma row)) = Some e"
  shows "insert_rows d p (pre @ row # post) insert_statement =
           (Some e, p1\<lparr>cursor := False,
                       trace := trace p1 @
                         [ExecuteFailed (py_format insert_statement (join_comma row))]\<rparr>)
         \<and> attempted (trace p1 @ [ExecuteFailed (py_format insert_statement (join_comma row))])
             = attempted (trace p) @
               map (\<lambda>row. py_format insert_statement (join_comma row)) (pre @ [row])"
proof -
  from assms(1) obtain p' where ec: "ensure_cursor d p = (None, p')"
    and loop: "insert_loop d insert_statement 1 pre p' = (None, p1)"
    by (rule insert_rows_success)
  from insert_loop_success [OF loop]
  have p1: "p1 = p'\<lparr>trace := trace p' @ row_events insert_statement 1 pre\<rparr>" .
  have "insert_loop d insert_statement 1 (pre @ row # post) p' =
          insert_loop d insert_statement (1 + length pre) (row # post) p1"
    using loop by (simp add: insert_loop_append)
  also have "\<dots> = (Some e, p1\<lparr>cursor := False,
                       trace := trace p1 @
                         [ExecuteFailed (py_format insert_statement (join_comma row))]\<rparr>)"
    using assms(2) by (simp add: Let_def)
  finally have r: "insert_rows d p (pre @ row # post) insert_statement =
           (Some e, p1\<lparr>cursor := False,
                       trace := trace p1 @
                         [ExecuteFailed (py_format insert_statement (join_comma row))]\<rparr>)"
    using ec by (simp add: insert_rows_def)
  have "trace p1 = trace p' @ row_events insert_statement 1 pre"
    by (subst p1) simp
  then have a: "attempted (trace p1 @ [ExecuteFailed (py_format insert_statement (join_comma row))])
             = attempted (trace p) @
               map (\<lambda>row. py_format insert_statement (join_comma row)) (pre @ [row])"
    using ensure_cursor_trace [OF ec]
    by (simp add: attempted_append attempted_row_events)
  from r a show ?thesis by blast
qed

text \<open>Three rows, of which the second fails: the third is never attempted.\<close>

theorem insert_rows_error_aborts_witness:
  "insert_rows
     \<lparr>connect = (\<lambda>cs. None),
      execute = (\<lambda>t s. if s = ''insert (b)'' then Some (DriverError ''duplicate key'')
                         else None)\<rparr>
     \<lparr>db = [''connection_string'' \<mapsto> ''dsn''], results_folder = None,
      stations_folder = None, cursor = False, trace = []\<rparr>
     [[''a''], [''b''], [''c'']] ''insert ({})''
   = (Some (DriverError ''duplicate key''),
      \<lparr>db = [''connection_string'' \<mapsto> ''dsn''], results_folder = None,
       stations_folder = None, cursor = False,
       trace = [Connect ''dsn'', Execute ''insert (a)'', Commit,
                ExecuteFailed ''insert (b)'']\<rparr>)"
  using insert_rows_error_aborts
     [of "\<lparr>connect = (\<lambda>cs. None),
           execute = (\<lambda>t s. if s = ''insert (b)'' then Some (DriverError ''duplicate key'')
                              else None)\<rparr>"
         "\<lparr>db = [''connection_string'' \<mapsto> ''dsn''], results_folder = None,
           stations_folder = None, cursor = False, trace = []\<rparr>"
         "[[''a'']]" "''insert ({})''"
         "\<lparr>db = [''connection_string'' \<mapsto> ''dsn''], results_folder = None,
           stations_folder = None, cursor = True,
           trace = [Connect ''dsn'', Execute ''insert (a)'', Commit]\<rparr>"
         "[''b'']" "DriverError ''duplicate key''" "[[''c'']]"]
  by (simp add: insert_rows_def ensure_cursor_def commit_def batch_size_def Let_def)

subsection \<open>Identifier reconciler\<close>

lemma filter_wqx_ready:
  "\<forall>r \<in> set xs. \<exists>s. r ''StationId'' = Some (VStr s) \<Longrightarrow>
     \<exists>kept. filter_wqx xs = Inr kept
       \<and> set kept = {r \<in> set xs. \<exists>s. r ''StationId'' = Some (VStr s) \<and> wqx_search s}"
proof (induction xs)
  case Nil
  then show ?case by simp
next
  case (Cons x xs)
  then obtain s where s: "x ''StationId'' = Some (VStr s)" by auto
  from Cons obtain kept where k: "filter_wqx xs = Inr kept"
    and ks: "set kept = {r \<in> set xs. \<exists>s. r ''StationId'' = Some (VStr s) \<and> wqx_search s}"
    by auto
  show ?case using s k ks by (auto simp: station_id_of_def)
qed

lemma stripped_ids_ready:
  "\<forall>r \<in> set xs. \<exists>s. r ''StationId'' = Some (VStr s) \<Longrightarrow>
     \<exists>ids. stripped_ids xs = Inr ids
       \<and> set ids = {wqx_sub s |s. \<exists>r \<in> set xs. r ''StationId'' = Some (VStr s)}"
proof (induction xs)
  case Nil
  then show ?case by simp
next
  case (Cons x xs)
  then obtain s where s: "x ''StationId'' = Some (VStr s)" by auto
  from Cons obtain ids where k: "stripped_ids xs = Inr ids"
    and ks: "set ids = {wqx_sub s |s. \<exists>r \<in> set xs. r ''StationId'' = Some (VStr s)}"
    by auto
  show ?case using s k ks by (auto simp: station_id_of_def)
qed

lemma stripped_first_cells_ready:
  "[] \<notin> set rows \<Longrightarrow> stripped_first_cells rows = Inr (map (\<lambda>r. wqx_sub (hd r)) rows)"
  by (induction rows rule: stripped_first_cells.induct) auto

text \<open>
  Claim C1, as amended. For a list of mapped stations, each with a string
  \<^verbatim>\<open>StationId\<close>, the set returned by \<^verbatim>\<open>_get_wqx_duplicate_ids\<close> holds a
  canonical id exactly when some row of the batch has a marker-suffixed id that strips
  to it: every marker-suffixed id contributes its stripped id, whether or not the bare
  form is in the batch, and a bare id contributes nothing. For a station file, the set
  is made of the stripped first cells of the rows the reader gives for the
  \<^verbatim>\<open>LIKE '%_WQX%'\<close> query, the header row dropped.
\<close>

theorem wqx_duplicate_ids_are_stripped_marker_ids:
  "((\<forall>r \<in> set stations. \<exists>s. r ''StationId'' = Some (VStr s)) \<longrightarrow>
      get_wqx_duplicate_ids query_csv (StationRows stations) =
        Inr {wqx_sub s |s. wqx_search s \<and> (\<exists>r \<in> set stations. r ''StationId'' = Some (VStr s))})
   \<and> (get_file_name_without_extension file_path \<noteq> [] \<and>
        [] \<notin> set (tl (query_csv
                (wqxids_sql monitoring_location_id (get_file_name_without_extension file_path))
                [file_path] TEMPDB)) \<longrightarrow>
      get_wqx_duplicate_ids query_csv (CsvFile file_path) =
        Inr ((\<lambda>r. wqx_sub (hd r)) ` set (tl (query_csv
                (wqxids_sql monitoring_location_id (get_file_name_without_extension file_path))
                [file_path] TEMPDB))))"
proof (intro conjI impI)
  assume wf: "\<forall>r \<in> set stations. \<exists>s. r ''StationId'' = Some (VStr s)"
  from filter_wqx_ready [OF wf] obtain kept where k: "filter_wqx stations = Inr kept"
    and ks: "set kept = {r \<in> set stations. \<exists>s. r ''StationId'' = Some (VStr s) \<and> wqx_search s}"
    by auto
  from ks wf have "\<forall>r \<in> set kept. \<exists>s. r ''StationId'' = Some (VStr s)" by auto
  from stripped_ids_ready [OF this] obtain ids where i: "stripped_ids kept = Inr ids"
    and idset: "set ids = {wqx_sub s |s. \<exists>r \<in> set kept. r ''StationId'' = Some (VStr s)}"
    by auto
  have "set ids =
          {wqx_sub s |s. wqx_search s \<and> (\<exists>r \<in> set stations. r ''StationId'' = Some (VStr s))}"
    unfolding idset ks by auto
  then show "get_wqx_duplicate_ids query_csv (StationRows stations) =
        Inr {wqx_sub s |s. wqx_search s \<and> (\<exists>r \<in> set stations. r ''StationId'' = Some (VStr s))}"
    by (simp add: get_wqx_duplicate_ids_def k i)
next
  let ?rows = "query_csv
                 (wqxids_sql monitoring_location_id (get_file_name_without_extension file_path))
                 [file_path] TEMPDB"
  assume a: "get_file_name_without_extension file_path \<noteq> [] \<and> [] \<notin> set (tl ?rows)"
  then have "stripped_first_cells (tl ?rows) = Inr (map (\<lambda>r. wqx_sub (hd r)) (tl ?rows))"
    by (simp add: stripped_first_cells_ready)
  moreover have "(if 0 < length ?rows then tl ?rows else ?rows) = tl ?rows"
    by (cases ?rows) auto
  ultimately show "get_wqx_duplicate_ids query_csv (CsvFile file_path) =
        Inr ((\<lambda>r. wqx_sub (hd r)) ` set (tl ?rows))"
    using a by (simp add: get_wqx_duplicate_ids_def Let_def)
qed

text \<open>
  A batch of one marker-suffixed and one bare station, and a file for which the reader
  gives the header and one row.
\<close>

theorem wqx_duplicate_ids_are_stripped_marker_ids_witness:
  "get_wqx_duplicate_ids
        (\<lambda>query files database. [[''MonitoringLocationIdentifier''], [''UTAHDWQ_WQX-4904640'']])
        (StationRows [[''StationId'' \<mapsto> VStr ''UTAHDWQ_WQX-4904410''],
                      [''StationId'' \<mapsto> VStr ''UTAHDWQ-111'']])
      = Inr {''UTAHDWQ-4904410''}
   \<and> get_file_name_without_extension ''tests/data/WQP/wqxids.csv'' = ''wqxids''
   \<and> get_wqx_duplicate_ids
        (\<lambda>query files database. [[''MonitoringLocationIdentifier''], [''UTAHDWQ_WQX-4904640'']])
        (CsvFile ''tests/data/WQP/wqxids.csv'')
      = Inr {''UTAHDWQ-4904640''}"
  using wqx_duplicate_ids_are_stripped_marker_ids
    [of "[[''StationId'' \<mapsto> VStr ''UTAHDWQ_WQX-4904410''],
          [''StationId'' \<mapsto> VStr ''UTAHDWQ-111'']]"
        "(\<lambda>query files database. [[''MonitoringLocationIdentifier''], [''UTAHDWQ_WQX-4904640'']])"
        "''tests/data/WQP/wqxids.csv''"]
  by (simp add: get_wqx_duplicate_ids_def station_id_of_def
        get_file_name_without_extension_def basename_def splitext_root_def)

text \<open>
  Claim C1 as written has a marker-suffixed id with no bare counterpart in the batch
  contribute nothing. In the batch of the repository's test no marker-suffixed id has
  its bare form in the batch, and both are in the set.
\<close>

theorem wqx_duplicate_ids_without_bare_counterpart:
  "get_wqx_duplicate_ids (\<lambda>query files database. [])
     (StationRows [[''StationId'' \<mapsto> VStr ''UTAHDWQ_WQX-4904410''],
                   [''StationId'' \<mapsto> VStr ''UTAHDWQ_WQX-4904610''],
                   [''StationId'' \<mapsto> VStr ''UTAHDWQ-111'']])
   = Inr {''UTAHDWQ-4904410'', ''UTAHDWQ-4904610''}"
  by (simp add: get_wqx_duplicate_ids_def station_id_of_def)

text \<open>
  Claim C2. The claim has every bare candidate id retained and every marker-suffixed
  id dropped whose stripped id is stored. The loop of
  \<^verbatim>\<open>_remove_existing_wqx_station_ids\<close> removes every id whose stripped form is not
  among the stripped marker ids the destination lacks, a bare id included, and it
  removes from the list it iterates over, so the id after a removed one is never
  looked at. With an empty Stations table the bare id \<^verbatim>\<open>'1234'\<close> is dropped; with
  both canonical ids stored, the second marker-suffixed id is retained.
\<close>

theorem remove_existing_wqx_station_ids_drops_bare_id:
  "remove_existing_wqx_station_ids (get_unique_station_ids {}) [''123_WQX-ABC'', ''1234'']
     = Inr [''123_WQX-ABC'']
   \<and> remove_existing_wqx_station_ids (get_unique_station_ids {''A-1'', ''B-2''})
       [''A_WQX-1'', ''B_WQX-2''] = Inr [''B_WQX-2'']"
  by (simp add: remove_existing_wqx_station_ids_def get_unique_station_ids_def Let_def)

subsection \<open>Full load of stations\<close>

lemma update_row_returns:
  "fst (update_row f s row) = None \<longleftrightarrow> row ''Lon_X'' \<noteq> None \<and> row ''Lat_Y'' \<noteq> None"
  by (auto simp: update_row_def Let_def split: option.splits)

lemma render_station_ready:
  "cast_station svc row ''Lon_X'' \<noteq> None \<Longrightarrow> cast_station svc row ''Lat_Y'' \<noteq> None \<Longrightarrow>
     render_station svc row = Inr (rendered svc row)"
  using update_row_returns [of "to_utm svc" "py_str svc" "cast_station svc row"]
  by (auto simp: render_station_def rendered_def Let_def split: prod.splits option.splits)

lemma seed_stations_loop_ready:
  "\<forall>raw \<in> set rows. station_ready svc header wqx raw \<Longrightarrow>
     seed_stations_loop svc header (Some wqx) rows stations =
       Inr (stations @ map (rendered svc)
              (filter (\<lambda>row. \<not> bare_duplicate wqx row) (map (mapped_station header) rows)))"
proof (induction rows arbitrary: stations)
  case Nil
  then show ?case by simp
next
  case (Cons raw rows)
  from Cons.prems have ready: "station_ready svc header wqx raw"
    and rest: "\<forall>raw \<in> set rows. station_ready svc header wqx raw" by auto
  from ready obtain row station_id where
    etl: "etl_column_names raw station_config header = Inr (OneRow row)"
    and sid: "row ''StationId'' = Some (VStr station_id)"
    and ok: "bare_duplicate wqx row \<or>
               (cast_station svc row ''Lon_X'' \<noteq> None \<and> cast_station svc row ''Lat_Y'' \<noteq> None)"
    by (auto simp: station_ready_def
             split: sum.splits etl_result.splits option.splits pyvalue.splits)
  have m: "mapped_station header raw = row" by (simp add: mapped_station_def etl)
  have ido: "station_id_of row = Inr station_id" by (simp add: station_id_of_def sid)
  show ?case
  proof (cases "bare_duplicate wqx row")
    case True
    then have "is_duplicate (Some wqx) station_id = Inr True"
      by (auto simp: is_duplicate_def bare_duplicate_def sid)
    with True show ?thesis
      by (simp add: etl ido m Cons.IH [OF rest])
  next
    case False
    then have dup: "is_duplicate (Some wqx) station_id = Inr False"
      by (auto simp: is_duplicate_def bare_duplicate_def sid)
    from False ok have "render_station svc row = Inr (rendered svc row)"
      by (simp add: render_station_ready)
    with False dup show ?thesis
      by (simp add: etl ido m Cons.IH [OF rest])
  qed
qed

text \<open>
  Claim C3. In a run of \<^verbatim>\<open>_seed_stations\<close> over rows it can process, with the
  duplicate set \<open>wqx\<close>: a row whose \<^verbatim>\<open>StationId\<close> is bare and in the set is
  skipped, and every other row (marker-suffixed, or bare and not in the set) goes
  through cast, \<^verbatim>\<open>_update_row\<close>, normalisation, reordering and rendering; the rows
  that went through, in their order, are what the sink is called with.
\<close>

theorem seed_stations_skips_bare_duplicates:
  assumes "\<forall>raw \<in> set rows. station_ready svc header wqx raw"
  shows "seed_stations svc d p rows header (Some wqx) =
           insert_rows d p
             (map (rendered svc)
                (filter (\<lambda>row. \<not> bare_duplicate wqx row) (map (mapped_station header) rows)))
             station_insert"
  by (simp add: seed_stations_def seed_stations_loop_ready [OF assms])

text \<open>
  Three lines of a station file with the duplicate set \<^verbatim>\<open>{'A-1'}\<close>: the bare
  \<^verbatim>\<open>A-1\<close> is skipped; the marker-suffixed \<^verbatim>\<open>A_WQX-1\<close> and the bare
  \<^verbatim>\<open>B-2\<close> reach the sink.
\<close>

theorem seed_stations_skips_bare_duplicates_witness:
  "station_ready plain_services
      (Some [''MonitoringLocationIdentifier'', ''LongitudeMeasure'', ''LatitudeMeasure''])
      {''A-1''} (Cells [''A-1'', ''-114'', ''40''])
   \<and> station_ready plain_services
      (Some [''MonitoringLocationIdentifier'', ''LongitudeMeasure'', ''LatitudeMeasure''])
      {''A-1''} (Cells [''A_WQX-1'', ''-114'', ''40''])
   \<and> station_ready plain_services
      (Some [''MonitoringLocationIdentifier'', ''LongitudeMeasure'', ''LatitudeMeasure''])
      {''A-1''} (Cells [''B-2'', '''', ''40''])
   \<and> seed_stations plain_services
        \<lparr>connect = (\<lambda>cs. None), execute = (\<lambda>t s. None)\<rparr>
        \<lparr>db = [''connection_string'' \<mapsto> ''dsn''], results_folder = None,
         stations_folder = None, cursor = False, trace = []\<rparr>
        [Cells [''A-1'', ''-114'', ''40''], Cells [''A_WQX-1'', ''-114'', ''40''],
         Cells [''B-2'', '''', ''40'']]
        (Some [''MonitoringLocationIdentifier'', ''LongitudeMeasure'', ''LatitudeMeasure''])
        (Some {''A-1''})
      = insert_rows \<lparr>connect = (\<lambda>cs. None), execute = (\<lambda>t s. None)\<rparr>
          \<lparr>db = [''connection_string'' \<mapsto> ''dsn''], results_folder = None,
           stations_folder = None, cursor = False, trace = []\<rparr>
          [[''A_WQX-1''], [''B-2'']] station_insert"
  using seed_stations_skips_bare_duplicates
    [of "[Cells [''A-1'', ''-114'', ''40''], Cells [''A_WQX-1'', ''-114'', ''40''],
          Cells [''B-2'', '''', ''40'']]"
        plain_services
        "(Some [''MonitoringLocationIdentifier'', ''LongitudeMeasure'', ''LatitudeMeasure''])"
        "{''A-1''}"
        "\<lparr>connect = (\<lambda>cs. None), execute = (\<lambda>t s. None)\<rparr>"
        "\<lparr>db = [''connection_string'' \<mapsto> ''dsn''], results_folder = None,
           stations_folder = None, cursor = False, trace = []\<rparr>"]
  by (simp add: plain_services_def station_ready_def bare_duplicate_def mapped_station_def
        rendered_def etl_column_names_def zip_row_def py_dict_def
        return_value_if_not_in_config_def station_config_def update_row_def py_and_def Let_def)

subsection \<open>Construction\<close>

text \<open>
  Claim C4. The claim has the constructor raise when the Stations folder is missing
  even though the Results folder exists. The test in \<^verbatim>\<open>__init__\<close> is
  \<^verbatim>\<open>isdir(results_folder or stations_folder)\<close>, which looks at the Results folder
  only: on a file system with \<^verbatim>\<open>data/WQP\<close> and \<^verbatim>\<open>data/WQP/Results\<close> and no
  \<^verbatim>\<open>data/WQP/Stations\<close> the program is constructed, both folders set. The missing
  folder only shows when seeding asks \<^verbatim>\<open>_get_files\<close> for its csv files and none is
  found.
\<close>

theorem init_accepts_missing_stations_folder:
  "init (\<lambda>path. path = ''data/WQP'' \<or> path = ''data/WQP/Results'') Map.empty (Some ''data'')
     = Inr \<lparr>db = Map.empty, results_folder = Some ''data/WQP/Results'',
            stations_folder = Some ''data/WQP/Stations'', cursor = False, trace = []\<rparr>
   \<and> get_files (\<lambda>pattern. []) (Some ''data/WQP/Stations'')
     = Inl (PyException [''data/WQP/Stations'', ''No csv files found.''])"
  by (simp add: init_def get_files_def join_def datasource_def py_or_def Let_def)

end
